theory Spec2Isabelle
  imports Complex_Main "HOL-Library.Sublist" "HOL-Library.Multiset"
begin

section \<open>Strings as the handlers use them\<close>

text \<open>
  The server code (\<^verbatim>\<open>server/routes.ts\<close>) works on JavaScript strings. They are modelled
  as \<^typ>\<open>string\<close>; the character classes of \<^verbatim>\<open>toUpperCase\<close>, \<^verbatim>\<open>trim\<close>,
  \<^verbatim>\<open>\s\<close> and \<^verbatim>\<open>\d\<close> are the ASCII ones (a character outside ASCII is neither
  white space nor a letter with another case here). JavaScript numbers are IEEE doubles;
  they are modelled as exact rationals, \<^verbatim>\<open>NaN\<close> as \<^const>\<open>None\<close>. The inputs evaluated in
  this theory are integers and amounts with two decimals away from every threshold, on
  which doubles give the same sums and comparisons. A statement about every input is a
  statement about this model: on a text or a name with characters outside ASCII, or at
  an amount that lies on a threshold only after rounding to a double, the code can
  differ from it.
\<close>

definition isSpace :: "char \<Rightarrow> bool" where
  "isSpace c = (c \<in> set [CHR 0x09, CHR 0x0A, CHR 0x0B, CHR 0x0C, CHR 0x0D, CHR '' ''])"

definition isDigit :: "char \<Rightarrow> bool" where
  "isDigit c = (c \<in> set ''0123456789'')"

definition toUpperChar :: "char \<Rightarrow> char" where
  "toUpperChar c =
     (case map_of (zip ''abcdefghijklmnopqrstuvwxyz'' ''ABCDEFGHIJKLMNOPQRSTUVWXYZ'') c of
        Some u \<Rightarrow> u
      | None \<Rightarrow> c)"

definition toLowerChar :: "char \<Rightarrow> char" where
  "toLowerChar c =
     (case map_of (zip ''ABCDEFGHIJKLMNOPQRSTUVWXYZ'' ''abcdefghijklmnopqrstuvwxyz'') c of
        Some l \<Rightarrow> l
      | None \<Rightarrow> c)"

definition toUpperCase :: "string \<Rightarrow> string" where
  "toUpperCase s = map toUpperChar s"

definition toLowerCase :: "string \<Rightarrow> string" where
  "toLowerCase s = map toLowerChar s"

text \<open>\<^verbatim>\<open>s.trim()\<close>: white space is dropped at both ends.\<close>

definition trim :: "string \<Rightarrow> string" where
  "trim s = rev (dropWhile isSpace (rev (dropWhile isSpace s)))"

text \<open>\<^verbatim>\<open>s.includes(t)\<close>: \<open>t\<close> occurs in \<open>s\<close> as a contiguous run; the empty
  string occurs in every string.\<close>

fun strIncludes :: "string \<Rightarrow> string \<Rightarrow> bool" where
  "strIncludes [] t = (t = [])"
| "strIncludes (c # cs) t = (prefix t (c # cs) \<or> strIncludes cs t)"

text \<open>\<^verbatim>\<open>s.split(/\s+/)\<close>: the pieces between maximal runs of white space; a run at
  either end leaves an empty piece there, and the empty string splits into one empty
  piece.\<close>

function splitWs :: "string \<Rightarrow> string list" where
  "splitWs s =
     (let w = takeWhile (\<lambda>c. \<not> isSpace c) s;
          r = dropWhile (\<lambda>c. \<not> isSpace c) s
      in if r = [] then [w] else w # splitWs (dropWhile isSpace r))"
  by pat_completeness auto
termination
proof (relation "measure length")
  fix s w r
  assume r: "r = dropWhile (\<lambda>c. \<not> isSpace c) s" and ne: "r \<noteq> []"
  from ne obtain c cs where rc: "r = c # cs" by (cases r) auto
  with r have "isSpace c"
    by (metis hd_dropWhile list.sel(1) ne)
  then have "length (dropWhile isSpace r) \<le> length cs"
    by (simp add: rc length_dropWhile_le)
  moreover have "length r \<le> length s"
    by (simp add: r length_dropWhile_le)
  ultimately show "(dropWhile isSpace r, s) \<in> measure length"
    by (simp add: rc)
qed simp

declare splitWs.simps [simp del]

section \<open>Plan-ID tokens\<close>

text \<open>
  \<^verbatim>\<open>const planIdPattern = /[HS]\d{4}-\d{3}/g; const foundPlanIds = text.match(planIdPattern) || [];\<close>
  \<open>planIdAt s\<close> says that the pattern matches at the start of \<open>s\<close>; the global match
  scans from the left and resumes after each match.
\<close>

definition planIdAt :: "string \<Rightarrow> bool" where
  "planIdAt s =
     (9 \<le> length s
      \<and> s ! 0 \<in> set ''HS''
      \<and> list_all isDigit (take 4 (drop 1 s))
      \<and> s ! 5 = CHR ''-''
      \<and> list_all isDigit (take 3 (drop 6 s)))"

function matchPlanIds :: "string \<Rightarrow> string list" where
  "matchPlanIds [] = []"
| "matchPlanIds (c # cs) =
     (if planIdAt (c # cs) then take 9 (c # cs) # matchPlanIds (drop 9 (c # cs))
      else matchPlanIds cs)"
  by pat_completeness auto
termination
  by (relation "measure length") auto

text \<open>A plan-ID token: a string that the pattern matches as a whole.\<close>

definition isPlanIdToken :: "string \<Rightarrow> bool" where
  "isPlanIdToken t = (planIdAt t \<and> length t = 9)"

section \<open>Carrier and plan matching (\<^verbatim>\<open>parsePlanDocumentText\<close>)\<close>

record Carrier =
  c_id :: int
  c_name :: string

text \<open>The columns of the \<^verbatim>\<open>plans\<close> table that the handlers read. A nullable column
  is an option; the \<^verbatim>\<open>numeric(10,2)\<close> columns arrive as strings.\<close>

record Plan =
  p_id :: int
  p_carrierId :: int
  p_name :: string
  stateCode :: "string option"
  counties :: "string list option"
  monthlyPremium :: "string option"
  maxOutOfPocket :: "string option"
  primaryCareCopay :: "string option"
  specialistCopay :: "string option"
  isCSnp :: "bool option"
  isDSnp :: "bool option"

definition docTypePatterns :: "(string \<times> string list) list" where
  "docTypePatterns =
     [(''SOB'', [''SUMMARY OF BENEFITS'', ''SUMMARY OF BENEFIT'', ''SOB'']),
      (''EOC'', [''EVIDENCE OF COVERAGE'', ''EOC'']),
      (''ANOC'', [''ANNUAL NOTICE OF CHANGE'', ''ANNUAL NOTICE OF CHANGES'', ''ANOC'']),
      (''PROVIDER_LIST'', [''PROVIDER DIRECTORY'', ''PROVIDER LIST'', ''PROVIDER NETWORK'']),
      (''DRUG_FORMULARY'',
         [''DRUG FORMULARY'', ''FORMULARY'', ''PRESCRIPTION DRUG LIST'', ''COVERED DRUGS''])]"

text \<open>The first type, in the order of the table, one of whose keywords occurs in the
  upper-cased text; the empty string when there is none.\<close>

definition detectDocumentType :: "string \<Rightarrow> string" where
  "detectDocumentType upperText =
     (case find (\<lambda>(ty, keywords). \<exists>keyword \<in> set keywords. strIncludes upperText keyword)
             docTypePatterns of
        Some (ty, keywords) \<Rightarrow> ty
      | None \<Rightarrow> [])"

definition carrierScore :: "string \<Rightarrow> Carrier \<Rightarrow> rat" where
  "carrierScore upperText c =
     (let carrierName = toUpperCase (c_name c)
      in if strIncludes upperText carrierName then 100
         else
           (let carrierWords = filter (\<lambda>w. length w > 2) (splitWs carrierName);
                matchedWords = length (filter (\<lambda>w. strIncludes upperText w) carrierWords)
            in if length carrierWords > 0
               then (of_nat matchedWords / of_nat (length carrierWords)) * 100
               else 0))"

text \<open>The state of the carrier loop: \<^verbatim>\<open>bestCarrierMatch\<close>, \<^verbatim>\<open>bestCarrierScore\<close>
  and \<^verbatim>\<open>carrierMatches\<close>.\<close>

type_synonym carrierState = "Carrier option \<times> rat \<times> (string \<times> rat) list"

definition carrierStep :: "string \<Rightarrow> Carrier \<Rightarrow> carrierState \<Rightarrow> carrierState" where
  "carrierStep upperText c st =
     (case st of (bestCarrierMatch, bestCarrierScore, carrierMatches) \<Rightarrow>
        (let score = carrierScore upperText c;
             carrierMatches' = carrierMatches @ [(c_name c, score)]
         in if score > bestCarrierScore
            then ((if score \<ge> 50 then Some c else bestCarrierMatch), score, carrierMatches')
            else (bestCarrierMatch, bestCarrierScore, carrierMatches')))"

definition carrierLoop :: "string \<Rightarrow> Carrier list \<Rightarrow> carrierState" where
  "carrierLoop upperText carriers = fold (carrierStep upperText) carriers (None, 0, [])"

definition planScore :: "string \<Rightarrow> string list \<Rightarrow> Plan \<Rightarrow> rat" where
  "planScore upperText foundPlanIds p =
     (let planName = toUpperCase (p_name p);
          score1 = (if \<exists>planId \<in> set foundPlanIds. strIncludes planName planId then 100 else 0);
          score2 = (if score1 = 0 \<and> strIncludes upperText planName then 90 else score1)
      in if score2 = 0
         then
           (let planWords = filter (\<lambda>w. length w > 2) (splitWs planName);
                matchedWords = length (filter (\<lambda>w. strIncludes upperText w) planWords)
            in if length planWords > 0
               then (of_nat matchedWords / of_nat (length planWords)) * 80
               else 0)
         else score2)"

text \<open>\<^verbatim>\<open>carrier?.name || "Unknown"\<close>: an absent carrier and an empty name both give
  the default.\<close>

definition carrierNameOf :: "Carrier list \<Rightarrow> int \<Rightarrow> string" where
  "carrierNameOf carriers cid =
     (case find (\<lambda>c. c_id c = cid) carriers of
        Some c \<Rightarrow> (if c_name c = [] then ''Unknown'' else c_name c)
      | None \<Rightarrow> ''Unknown'')"

type_synonym planState = "Plan option \<times> rat \<times> (string \<times> string \<times> rat) list"

definition planStep ::
  "string \<Rightarrow> string list \<Rightarrow> Carrier list \<Rightarrow> Carrier option \<Rightarrow> Plan \<Rightarrow> planState \<Rightarrow> planState"
where
  "planStep upperText foundPlanIds carriers bestCarrierMatch p st =
     (case st of (bestPlanMatch, bestPlanScore, planMatches) \<Rightarrow>
        (let score = planScore upperText foundPlanIds p;
             planMatches' =
               planMatches @ [(p_name p, carrierNameOf carriers (p_carrierId p), score)];
             sameCarrier =
               (case bestCarrierMatch of Some c \<Rightarrow> p_carrierId p = c_id c | None \<Rightarrow> False)
         in if score > bestPlanScore \<or> (score = bestPlanScore \<and> sameCarrier)
            then
              ((if score \<ge> 40
                then (if bestCarrierMatch = None \<or> sameCarrier then Some p
                      else if bestPlanMatch = None then Some p
                      else bestPlanMatch)
                else bestPlanMatch),
               score, planMatches')
            else (bestPlanMatch, bestPlanScore, planMatches')))"

definition planLoop ::
  "string \<Rightarrow> string list \<Rightarrow> Carrier list \<Rightarrow> Carrier option \<Rightarrow> Plan list \<Rightarrow> planState"
where
  "planLoop upperText foundPlanIds carriers bestCarrierMatch plans =
     fold (planStep upperText foundPlanIds carriers bestCarrierMatch) plans (None, 0, [])"

text \<open>\<^verbatim>\<open>Math.round\<close>: the nearest integer, a half rounding up.\<close>

definition mathRound :: "rat \<Rightarrow> int" where
  "mathRound x = \<lfloor>x + 1 / 2\<rfloor>"

definition overallConfidence :: "Carrier option \<Rightarrow> rat \<Rightarrow> Plan option \<Rightarrow> rat \<Rightarrow> rat" where
  "overallConfidence bestCarrierMatch bestCarrierScore bestPlanMatch bestPlanScore =
     (case (bestCarrierMatch, bestPlanMatch) of
        (Some c, Some p) \<Rightarrow>
          (if p_carrierId p = c_id c then (bestCarrierScore + bestPlanScore) / 2
           else ((bestCarrierScore + bestPlanScore) / 2) * (7 / 10))
      | (Some c, None) \<Rightarrow> max bestCarrierScore bestPlanScore * (6 / 10)
      | (None, Some p) \<Rightarrow> max bestCarrierScore bestPlanScore * (6 / 10)
      | (None, None) \<Rightarrow> 0)"

text \<open>The value \<^verbatim>\<open>parsePlanDocumentText\<close> returns. The benefit fields of a summary of
  benefits come from \<^verbatim>\<open>extractPlanBenefits\<close>, a bank of regular expressions that is a
  parameter here; \<^const>\<open>None\<close> is the empty object of the other document types.\<close>

record 'b Extracted =
  carrier :: "Carrier option"
  plan :: "Plan option"
  documentType :: string
  confidence :: int
  carrierMatches :: "(string \<times> rat) list"
  planMatches :: "(string \<times> string \<times> rat) list"
  extractedBenefits :: "'b option"
  detectedPlanIds :: "string list"

text \<open>\<^verbatim>\<open>xs.sort((a, b) => b.score - a.score)\<close>: a stable sort, highest score first.\<close>

definition sortByScoreDesc :: "('a \<Rightarrow> rat) \<Rightarrow> 'a list \<Rightarrow> 'a list" where
  "sortByScoreDesc sc xs = sort_key (\<lambda>x. - sc x) xs"

definition parsePlanDocumentText ::
  "(string \<Rightarrow> 'b) \<Rightarrow> string \<Rightarrow> Carrier list \<Rightarrow> Plan list \<Rightarrow> 'b Extracted"
where
  "parsePlanDocumentText extractPlanBenefits text carriers plans =
     (let upperText = toUpperCase text;
          docType = detectDocumentType upperText;
          foundPlanIds = matchPlanIds text;
          (bestCarrierMatch, bestCarrierScore, cMatches) = carrierLoop upperText carriers;
          (bestPlanMatch, bestPlanScore, pMatches) =
             planLoop upperText foundPlanIds carriers bestCarrierMatch plans
      in \<lparr> carrier = bestCarrierMatch,
           plan = bestPlanMatch,
           documentType = (if docType = [] then ''UNKNOWN'' else docType),
           confidence =
             mathRound
               (overallConfidence bestCarrierMatch bestCarrierScore bestPlanMatch bestPlanScore),
           carrierMatches = sortByScoreDesc snd cMatches,
           planMatches = sortByScoreDesc (\<lambda>m. snd (snd m)) pMatches,
           extractedBenefits =
             (if docType = ''SOB'' then Some (extractPlanBenefits text) else None),
           detectedPlanIds = foundPlanIds \<rparr>)"

section \<open>Text extraction (\<^verbatim>\<open>extractTextFromDocument\<close>)\<close>

text \<open>A thrown value is an \<^verbatim>\<open>Error\<close> with its message, or something else.\<close>

datatype thrown = Error string | NonError

text \<open>
  What the world holds for one file path: the extension \<^verbatim>\<open>path.extname(filePath)\<close>,
  what reading the file and \<^verbatim>\<open>PDFParse.getText\<close> do (throw, or return a result whose
  \<^verbatim>\<open>text\<close> may be absent), and what \<^verbatim>\<open>Tesseract.recognize\<close> does. Releasing the
  parser in the \<^verbatim>\<open>finally\<close> block is taken not to throw.
\<close>

record DocSource =
  ext :: string
  pdfGetText :: "thrown + string option"
  tesseractRecognize :: "thrown + string"

definition scannedPdfMessage :: string where
  "scannedPdfMessage =
     ''This appears to be a scanned PDF. Please convert the document to JPG or PNG format and re-upload for OCR processing.''"

definition pdfFailedMessage :: string where
  "pdfFailedMessage =
     ''Failed to extract text from PDF. For scanned documents, please convert to JPG or PNG format.''"

text \<open>The \<^verbatim>\<open>catch\<close> block of the PDF branch: an error that already speaks of a scanned
  PDF is thrown again, any other is replaced.\<close>

definition pdfCatch :: "thrown \<Rightarrow> thrown" where
  "pdfCatch e =
     (case e of
        Error m \<Rightarrow> (if strIncludes m ''scanned PDF'' then e else Error pdfFailedMessage)
      | NonError \<Rightarrow> Error pdfFailedMessage)"

definition extractTextFromDocument :: "DocSource \<Rightarrow> thrown + string" where
  "extractTextFromDocument d =
     (if toLowerCase (ext d) = ''.pdf''
      then
        (case pdfGetText d of
           Inl e \<Rightarrow> Inl (pdfCatch e)
         | Inr resultText \<Rightarrow>
             (let extractedText = (case resultText of Some t \<Rightarrow> t | None \<Rightarrow> [])
              in if length (trim extractedText) < 50
                 then Inl (pdfCatch (Error scannedPdfMessage))
                 else Inr extractedText))
      else tesseractRecognize d)"

section \<open>Batch upload (\<^verbatim>\<open>POST /api/ocr/batch-upload\<close>)\<close>

text \<open>One uploaded file: the fields of the multer file that the handler reads,
  \<^verbatim>\<open>path.extname(file.originalname)\<close>, and what lies at \<^verbatim>\<open>file.path\<close>.\<close>

record Upload =
  originalname :: string
  originalExt :: string
  size :: int
  mimetype :: string
  source :: DocSource

text \<open>What the world answers while one file is processed: \<^verbatim>\<open>Date.now()\<close>, and
  whether copying the file or inserting the record throws.\<close>

record Env =
  now :: nat
  copyThrows :: "thrown option"
  insertThrows :: "thrown option"

record PlanDocument =
  pd_id :: int
  pd_planId :: int
  pd_documentType :: string
  pd_fileName :: string
  pd_filePath :: string
  pd_fileSize :: int

text \<open>The state the handler changes: the \<^verbatim>\<open>plan_documents\<close> table with its identity
  counter, and the names of the files in \<^verbatim>\<open>uploaded_documents/\<close>.\<close>

record World =
  planDocuments :: "PlanDocument list"
  nextDocumentId :: int
  uploadedDocuments :: "string list"

record 'b Review =
  rv_fileName :: string
  rv_error :: string
  rv_extractedText :: string
  possibleCarriers :: "(string \<times> rat) list"
  possiblePlans :: "(string \<times> string \<times> rat) list"
  rv_extractedBenefits :: "'b option"

record 'b Assignment =
  as_fileName :: string
  as_carrier :: string
  as_plan :: string
  as_planId :: int
  as_documentType :: string
  as_documentId :: int
  as_confidence :: int
  as_extractedBenefits :: "'b option"

text \<open>An entry of \<^verbatim>\<open>results\<close>: a bare failure (\<^verbatim>\<open>fileName\<close>, \<^verbatim>\<open>error\<close>), a failure
  with suggestions for manual review, or a success.\<close>

datatype 'b FileResult =
    Failure string string
  | NeedsReview "'b Review"
  | Assigned "'b Assignment"

fun success :: "'b FileResult \<Rightarrow> bool" where
  "success (Assigned a) = True"
| "success r = False"

definition messageOr :: "thrown \<Rightarrow> string \<Rightarrow> string" where
  "messageOr e dflt = (case e of Error m \<Rightarrow> m | NonError \<Rightarrow> dflt)"

definition carrierPlanMismatch :: "'b Extracted \<Rightarrow> bool" where
  "carrierPlanMismatch ex =
     (case (carrier ex, plan ex) of
        (Some c, Some p) \<Rightarrow> p_carrierId p \<noteq> c_id c
      | _ \<Rightarrow> False)"

text \<open>The condition of the \<^verbatim>\<open>if\<close> under the comment \<^verbatim>\<open>CRITICAL: Validate carrier/plan
  match before saving\<close>.\<close>

definition failsGate :: "'b Extracted \<Rightarrow> bool" where
  "failsGate ex =
     (carrier ex = None \<or> plan ex = None \<or> carrierPlanMismatch ex \<or> confidence ex < 40)"

definition gateError :: "'b Extracted \<Rightarrow> string" where
  "gateError ex =
     (if carrier ex \<noteq> None \<and> plan ex \<noteq> None \<and> carrierPlanMismatch ex
      then ''Carrier and plan mismatch - cannot auto-assign''
      else if confidence ex < 40 then ''Low confidence match - manual review required''
      else ''Could not identify carrier or plan'')"

definition review :: "string \<Rightarrow> string \<Rightarrow> 'b Extracted \<Rightarrow> 'b Review" where
  "review fileName text ex =
     \<lparr> rv_fileName = fileName,
       rv_error = gateError ex,
       rv_extractedText = take 500 text,
       possibleCarriers = take 3 (carrierMatches ex),
       possiblePlans = take 3 (planMatches ex),
       rv_extractedBenefits = extractedBenefits ex \<rparr>"

function showNat :: "nat \<Rightarrow> string" where
  "showNat n =
     (if n < 10 then [''0123456789'' ! n]
      else showNat (n div 10) @ [''0123456789'' ! (n mod 10)])"
  by pat_completeness auto
termination
  by (relation "measure id") auto

declare showNat.simps [simp del]

definition showInt :: "int \<Rightarrow> string" where
  "showInt i = (if i < 0 then CHR ''-'' # showNat (nat (- i)) else showNat (nat i))"

definition isAlnum :: "char \<Rightarrow> bool" where
  "isAlnum c =
     (c \<in> set ''abcdefghijklmnopqrstuvwxyzABCDEFGHIJKLMNOPQRSTUVWXYZ0123456789'')"

text \<open>\<^verbatim>\<open>`${safeDocType}_${extracted.plan.id}_${timestamp}${fileExtension}`\<close>\<close>

definition newFileName :: "string \<Rightarrow> int \<Rightarrow> nat \<Rightarrow> string \<Rightarrow> string" where
  "newFileName docType planId timestamp fileExtension =
     map (\<lambda>c. if isAlnum c then c else CHR ''_'') docType
       @ ''_'' @ showInt planId @ ''_'' @ showNat timestamp @ fileExtension"

text \<open>The part of the loop body after the gate: copy the file, insert the record,
  report success. A throw of either step lands in the \<^verbatim>\<open>catch\<close> of the loop body.\<close>

definition assign ::
  "Env \<Rightarrow> Upload \<Rightarrow> 'b Extracted \<Rightarrow> Carrier \<Rightarrow> Plan \<Rightarrow> World \<Rightarrow> 'b FileResult \<times> World"
where
  "assign env f ex c p w =
     (let fileName = newFileName (documentType ex) (p_id p) (now env) (originalExt f)
      in case copyThrows env of
           Some e \<Rightarrow> (Failure (originalname f) (messageOr e ''Processing failed''), w)
         | None \<Rightarrow>
             (let w1 = w\<lparr> uploadedDocuments := uploadedDocuments w @ [fileName] \<rparr>
              in case insertThrows env of
                   Some e \<Rightarrow> (Failure (originalname f) (messageOr e ''Processing failed''), w1)
                 | None \<Rightarrow>
                     (let planDocument =
                            \<lparr> pd_id = nextDocumentId w1,
                              pd_planId = p_id p,
                              pd_documentType = documentType ex,
                              pd_fileName = originalname f,
                              pd_filePath = fileName,
                              pd_fileSize = size f \<rparr>
                      in (Assigned
                            \<lparr> as_fileName = originalname f,
                              as_carrier = c_name c,
                              as_plan = p_name p,
                              as_planId = p_id p,
                              as_documentType = documentType ex,
                              as_documentId = pd_id planDocument,
                              as_confidence = confidence ex,
                              as_extractedBenefits = extractedBenefits ex \<rparr>,
                          w1\<lparr> planDocuments := planDocuments w1 @ [planDocument],
                              nextDocumentId := nextDocumentId w1 + 1 \<rparr>))))"

text \<open>The body of the loop over the uploaded files. (Past the gate both carrier and
  plan are present; the last case is there only to make the case distinction
  complete.)\<close>

definition processFile ::
  "(string \<Rightarrow> 'b) \<Rightarrow> Carrier list \<Rightarrow> Plan list \<Rightarrow> Env \<Rightarrow> Upload \<Rightarrow> World
     \<Rightarrow> 'b FileResult \<times> World"
where
  "processFile extractPlanBenefits carriers plans env f w =
     (case extractTextFromDocument (source f) of
        Inl extractError \<Rightarrow>
          (Failure (originalname f)
             (messageOr extractError ''Failed to extract text from document''), w)
      | Inr text \<Rightarrow>
          (if length (trim text) = 0
           then (Failure (originalname f) ''No text found in document'', w)
           else
             (let extracted = parsePlanDocumentText extractPlanBenefits text carriers plans
              in if failsGate extracted
                 then (NeedsReview (review (originalname f) text extracted), w)
                 else
                   (case (carrier extracted, plan extracted) of
                      (Some c, Some p) \<Rightarrow> assign env f extracted c p w
                    | _ \<Rightarrow> (NeedsReview (review (originalname f) text extracted), w)))))"

definition allowedMimeTypes :: "string list" where
  "allowedMimeTypes = [''application/pdf'', ''image/jpeg'', ''image/png'', ''image/jpg'']"

record 'b Summary =
  total :: nat
  successful :: nat
  failed :: nat
  results :: "'b FileResult list"

text \<open>One turn of the loop: the file is processed and its entry pushed to
  \<^verbatim>\<open>results\<close>.\<close>

definition batchStep ::
  "(string \<Rightarrow> 'b) \<Rightarrow> Carrier list \<Rightarrow> Plan list \<Rightarrow> Upload \<times> Env
     \<Rightarrow> 'b FileResult list \<times> World \<Rightarrow> 'b FileResult list \<times> World"
where
  "batchStep extractPlanBenefits carriers plans fe st =
     (case fe of (f, env) \<Rightarrow>
        (case st of (rs, w0) \<Rightarrow>
           (case processFile extractPlanBenefits carriers plans env f w0 of
              (r, w1) \<Rightarrow> (rs @ [r], w1))))"

text \<open>The handler: a request without files or with a file of another MIME type is
  answered with status 400 before anything is processed; otherwise the files are
  processed in order against the carriers and plans of the catalog. (The temporary
  uploads, which the handler deletes on every path, are not part of the state.)\<close>

definition batchUpload ::
  "(string \<Rightarrow> 'b) \<Rightarrow> Carrier list \<Rightarrow> Plan list \<Rightarrow> (Upload \<times> Env) list \<Rightarrow> World
     \<Rightarrow> ((nat \<times> string) + 'b Summary) \<times> World"
where
  "batchUpload extractPlanBenefits carriers plans files w =
     (if files = [] then (Inl (400, ''No files uploaded''), w)
      else
        (case find (\<lambda>(f, env). mimetype f \<notin> set allowedMimeTypes) files of
           Some (f, env) \<Rightarrow>
             (Inl (400, ''Invalid file type: '' @ originalname f
                          @ ''. Only PDF, JPG, and PNG files are allowed.''), w)
         | None \<Rightarrow>
             (case fold (batchStep extractPlanBenefits carriers plans) files ([], w) of
                (rs, w') \<Rightarrow>
                  (let successCount = length (filter success rs)
                   in (Inr \<lparr> total = length rs,
                             successful = successCount,
                             failed = length rs - successCount,
                             results = rs \<rparr>, w')))))"

section \<open>Manual upload of a plan document (\<^verbatim>\<open>POST /api/plans/:id/documents\<close>)\<close>

text \<open>
  The route that stores a plan document chosen by hand validates the document type
  before it copies the file and inserts the record: the type must be present and one of
  \<^verbatim>\<open>REQUIRED_DOCUMENT_TYPES\<close> (\<^verbatim>\<open>shared/schema.ts\<close>), otherwise the request is answered
  with status 400. The comment on the \<^verbatim>\<open>document_type\<close> column of \<^verbatim>\<open>plan_documents\<close> lists
  the same five types.
\<close>

definition REQUIRED_DOCUMENT_TYPES :: "string list" where
  "REQUIRED_DOCUMENT_TYPES = [''SOB'', ''EOC'', ''ANOC'', ''PROVIDER_LIST'', ''DRUG_FORMULARY'']"

text \<open>The negation of \<^verbatim>\<open>!documentType || !REQUIRED_DOCUMENT_TYPES.includes(documentType)\<close>.\<close>

definition validDocumentType :: "string \<Rightarrow> bool" where
  "validDocumentType ty = (ty \<noteq> [] \<and> ty \<in> set REQUIRED_DOCUMENT_TYPES)"

section \<open>Plan comparison (\<^verbatim>\<open>POST /api/clients/:id/compare\<close>)\<close>

subsection \<open>Numbers read from the plan columns\<close>

definition digitValue :: "char \<Rightarrow> nat" where
  "digitValue c = length (takeWhile (\<lambda>d. d \<noteq> c) ''0123456789'')"

fun digitsValue :: "nat \<Rightarrow> string \<Rightarrow> nat" where
  "digitsValue acc [] = acc"
| "digitsValue acc (c # cs) =
     digitsValue (10 * acc + digitValue c) cs"

definition pow10 :: "int \<Rightarrow> rat" where
  "pow10 e = (if e < 0 then 1 / 10 ^ nat (- e) else 10 ^ nat e)"

text \<open>The exponent part of a decimal literal, if one follows: \<^verbatim>\<open>e\<close> or \<^verbatim>\<open>E\<close>, an
  optional sign and at least one digit.\<close>

definition exponentPart :: "string \<Rightarrow> int" where
  "exponentPart s =
     (case s of
        [] \<Rightarrow> 0
      | c # r \<Rightarrow>
          (if c = CHR ''e'' \<or> c = CHR ''E''
           then
             (let (neg, u) =
                    (case r of
                       [] \<Rightarrow> (False, [])
                     | d # r' \<Rightarrow>
                         (if d = CHR ''-'' then (True, r')
                          else if d = CHR ''+'' then (False, r')
                          else (False, r)));
                  ds = takeWhile isDigit u
              in if ds = [] then 0
                 else (if neg then - int (digitsValue 0 ds) else int (digitsValue 0 ds)))
           else 0))"

text \<open>
  \<^verbatim>\<open>parseFloat\<close>: leading white space is skipped, the longest prefix that is a decimal
  literal is read and the rest ignored; without such a prefix the result is \<^verbatim>\<open>NaN\<close>.
  The literal \<^verbatim>\<open>Infinity\<close>, which a \<^verbatim>\<open>numeric(10,2)\<close> column cannot hold, is not
  modelled.
\<close>

definition parseFloat :: "string \<Rightarrow> rat option" where
  "parseFloat s =
     (let t = dropWhile isSpace s;
          (neg, u) =
            (case t of
               [] \<Rightarrow> (False, [])
             | c # r \<Rightarrow>
                 (if c = CHR ''-'' then (True, r)
                  else if c = CHR ''+'' then (False, r)
                  else (False, t)));
          ip = takeWhile isDigit u;
          r1 = dropWhile isDigit u;
          (fp, r2) =
            (case r1 of
               [] \<Rightarrow> ([], [])
             | c # r \<Rightarrow>
                 (if c = CHR ''.'' then (takeWhile isDigit r, dropWhile isDigit r)
                  else ([], r1)))
      in if ip = [] \<and> fp = [] then None
         else
           (let m = of_nat (digitsValue 0 (ip @ fp)) / 10 ^ length fp * pow10 (exponentPart r2)
            in Some (if neg then - m else m)))"

text \<open>\<^verbatim>\<open>field || dflt\<close> on a nullable string column: \<^verbatim>\<open>null\<close> and the empty string
  give the default.\<close>

definition orElse :: "string option \<Rightarrow> string \<Rightarrow> string" where
  "orElse field dflt =
     (case field of None \<Rightarrow> dflt | Some v \<Rightarrow> (if v = [] then dflt else v))"

text \<open>Subtraction and comparison of numbers that may be \<^verbatim>\<open>NaN\<close>: a difference with
  \<^verbatim>\<open>NaN\<close> is \<^verbatim>\<open>NaN\<close>, a comparison with \<^verbatim>\<open>NaN\<close> is false.\<close>

definition numSub :: "rat option \<Rightarrow> rat option \<Rightarrow> rat option" where
  "numSub a b = (case (a, b) of (Some x, Some y) \<Rightarrow> Some (x - y) | _ \<Rightarrow> None)"

definition numLess :: "rat option \<Rightarrow> rat option \<Rightarrow> bool" where
  "numLess a b = (case (a, b) of (Some x, Some y) \<Rightarrow> x < y | _ \<Rightarrow> False)"

subsection \<open>Scoring\<close>

text \<open>
  The reasons pushed while a plan is scored. Each constructor stands for one of the
  handler's texts; where the text shows a number (\<^verbatim>\<open>toFixed\<close>), the constructor carries
  that number: the premium saved, the premium increase (its absolute value), the
  out-of-pocket amount saved.
\<close>

datatype reason =
    SavesOnPremium "rat option"
  | HigherPremium "rat option"
  | LowerMaxOutOfPocket "rat option"
  | LowerPrimaryCareCopay
  | LowerSpecialistCopay
  | CSnpPlan
  | DSnpPlan

type_synonym scoring = "int \<times> reason list"

text \<open>Each block of the scoring callback is a function on \<^verbatim>\<open>score\<close> and
  \<^verbatim>\<open>reasons\<close>.\<close>

definition premiumRule :: "Plan \<Rightarrow> Plan \<Rightarrow> scoring \<Rightarrow> scoring" where
  "premiumRule currentPlan p sr =
     (case sr of (score, reasons) \<Rightarrow>
        (let currentPremium = parseFloat (orElse (monthlyPremium currentPlan) ''0'');
             planPremium = parseFloat (orElse (monthlyPremium p) ''0'');
             premiumSavings = numSub currentPremium planPremium
         in if numLess (Some 50) premiumSavings
              then (score + 40, reasons @ [SavesOnPremium premiumSavings])
            else if numLess (Some 20) premiumSavings
              then (score + 25, reasons @ [SavesOnPremium premiumSavings])
            else if numLess (Some 0) premiumSavings
              then (score + 10, reasons @ [SavesOnPremium premiumSavings])
            else if numLess premiumSavings (Some (- 20))
              then (score - 20, reasons @ [HigherPremium (map_option abs premiumSavings)])
            else (score, reasons)))"

definition moopRule :: "Plan \<Rightarrow> Plan \<Rightarrow> scoring \<Rightarrow> scoring" where
  "moopRule currentPlan p sr =
     (case sr of (score, reasons) \<Rightarrow>
        (let currentMoop = parseFloat (orElse (maxOutOfPocket currentPlan) ''999999'');
             planMoop = parseFloat (orElse (maxOutOfPocket p) ''999999'')
         in if numLess planMoop currentMoop
            then (score + 30, reasons @ [LowerMaxOutOfPocket (numSub currentMoop planMoop)])
            else (score, reasons)))"

definition pcpCopayRule :: "Plan \<Rightarrow> Plan \<Rightarrow> scoring \<Rightarrow> scoring" where
  "pcpCopayRule currentPlan p sr =
     (case sr of (score, reasons) \<Rightarrow>
        (let currentPcpCopay = parseFloat (orElse (primaryCareCopay currentPlan) ''0'');
             planPcpCopay = parseFloat (orElse (primaryCareCopay p) ''0'')
         in if numLess planPcpCopay currentPcpCopay
            then (score + 10, reasons @ [LowerPrimaryCareCopay])
            else (score, reasons)))"

definition specCopayRule :: "Plan \<Rightarrow> Plan \<Rightarrow> scoring \<Rightarrow> scoring" where
  "specCopayRule currentPlan p sr =
     (case sr of (score, reasons) \<Rightarrow>
        (let currentSpecCopay = parseFloat (orElse (specialistCopay currentPlan) ''0'');
             planSpecCopay = parseFloat (orElse (specialistCopay p) ''0'')
         in if numLess planSpecCopay currentSpecCopay
            then (score + 10, reasons @ [LowerSpecialistCopay])
            else (score, reasons)))"

definition snpRule :: "Plan \<Rightarrow> scoring \<Rightarrow> scoring" where
  "snpRule p sr =
     (case sr of (score, reasons) \<Rightarrow>
        (if isCSnp p = Some True \<or> isDSnp p = Some True
         then (score + 15, reasons @ [if isCSnp p = Some True then CSnpPlan else DSnpPlan])
         else (score, reasons)))"

record Scored =
  sc_plan :: Plan
  score :: int
  reasons :: "reason list"

text \<open>The callback of \<^verbatim>\<open>availablePlans.map\<close>. The block on \<^verbatim>\<open>client.usesMulticare\<close>
  only looks a carrier up and changes nothing.\<close>

definition scorePlan :: "Plan \<Rightarrow> Plan \<Rightarrow> Scored" where
  "scorePlan currentPlan p =
     (let sr = snpRule p
                 (specCopayRule currentPlan p
                    (pcpCopayRule currentPlan p
                       (moopRule currentPlan p
                          (premiumRule currentPlan p (100, [])))))
      in \<lparr> sc_plan = p, score = fst sr, reasons = snd sr \<rparr>)"

subsection \<open>The handler\<close>

record Client =
  cl_id :: int
  county :: "string option"
  state :: "string option"
  currentPlanId :: "int option"
  usesMulticare :: "bool option"

text \<open>The storage interface as far as the handler calls it.\<close>

record Storage =
  getClient :: "int \<Rightarrow> Client option"
  getPlan :: "int \<Rightarrow> Plan option"
  getAllPlans :: "Plan list"
  getAllCarriers :: "Carrier list"

text \<open>The filter behind \<^verbatim>\<open>availablePlans\<close>; \<open>clientCounty\<close> is \<^verbatim>\<open>client.county\<close>, known
  to be a non-empty string where the filter runs.\<close>

definition availablePlans :: "Client \<Rightarrow> string \<Rightarrow> Plan \<Rightarrow> Plan list \<Rightarrow> Plan list" where
  "availablePlans client clientCounty currentPlan allPlans =
     filter (\<lambda>p. stateCode p = state client
                 \<and> (case counties p of
                       None \<Rightarrow> False
                     | Some cs \<Rightarrow> clientCounty \<in> set cs)
                 \<and> p_id p \<noteq> p_id currentPlan)
            allPlans"

text \<open>\<^verbatim>\<open>scoredPlans.sort((a, b) => b.score - a.score)\<close>\<close>

definition sortScored :: "Scored list \<Rightarrow> Scored list" where
  "sortScored xs = sort_key (\<lambda>s. - score s) xs"

definition scoredPlans :: "Client \<Rightarrow> string \<Rightarrow> Plan \<Rightarrow> Plan list \<Rightarrow> Scored list" where
  "scoredPlans client clientCounty currentPlan allPlans =
     sortScored (map (scorePlan currentPlan)
                   (availablePlans client clientCounty currentPlan allPlans))"

record Comparison =
  cmp_clientId :: int
  cmp_currentPlan :: Plan
  cmp_currentCarrierName :: string
  recommendedPlans :: "(Scored \<times> string) list"
  totalPlansConsidered :: nat

text \<open>The request parameter is given as \<^verbatim>\<open>parseInt(req.params.id)\<close>, \<^const>\<open>None\<close> for
  \<^verbatim>\<open>NaN\<close>. An early return is a status with its message. The answer is the
  comparison data; the row that caches it in \<^verbatim>\<open>plan_comparisons\<close>, and the id of that row,
  are left out.\<close>

definition compareHandler :: "Storage \<Rightarrow> int option \<Rightarrow> (nat \<times> string) + Comparison" where
  "compareHandler st idParam =
     (case idParam of
        None \<Rightarrow> Inl (400, ''Invalid client ID'')
      | Some cid \<Rightarrow>
     (case getClient st cid of
        None \<Rightarrow> Inl (404, ''Client not found'')
      | Some client \<Rightarrow>
     (case county client of
        None \<Rightarrow> Inl (400, ''Client must have county specified'')
      | Some clientCounty \<Rightarrow>
     (if clientCounty = [] then Inl (400, ''Client must have county specified'')
      else
     (case currentPlanId client of
        None \<Rightarrow> Inl (400, ''Client must have current plan specified'')
      | Some planId \<Rightarrow>
     (if planId = 0 then Inl (400, ''Client must have current plan specified'')
      else
     (case getPlan st planId of
        None \<Rightarrow> Inl (404, ''Current plan not found'')
      | Some currentPlan \<Rightarrow>
          (let allPlans = getAllPlans st;
               top3 = take 3 (scoredPlans client clientCounty currentPlan allPlans);
               carriers = getAllCarriers st
           in Inr \<lparr> cmp_clientId = cl_id client,
                    cmp_currentPlan = currentPlan,
                    cmp_currentCarrierName = carrierNameOf carriers (p_carrierId currentPlan),
                    recommendedPlans =
                      map (\<lambda>s. (s, carrierNameOf carriers (p_carrierId (sc_plan s)))) top3,
                    totalPlansConsidered =
                      length (availablePlans client clientCounty currentPlan allPlans) \<rparr>))))))))"

subsection \<open>The candidate filter in the words of the specification\<close>

text \<open>
  The specification describes the county test as a comparison that ignores case and
  surrounding white space: candidates are the plans of the client's state whose county
  list has an entry equal, in that sense, to the client's county, without the current
  plan. This second filter follows those words, to be compared with
  \<^const>\<open>availablePlans\<close>, which follows the handler.
\<close>

definition specCountyMatch :: "string \<Rightarrow> string \<Rightarrow> bool" where
  "specCountyMatch a b = (toLowerCase (trim a) = toLowerCase (trim b))"

definition specAvailablePlans :: "Client \<Rightarrow> string \<Rightarrow> Plan \<Rightarrow> Plan list \<Rightarrow> Plan list" where
  "specAvailablePlans client clientCounty currentPlan allPlans =
     filter (\<lambda>p. stateCode p = state client
                 \<and> (case counties p of
                       None \<Rightarrow> False
                     | Some cs \<Rightarrow> \<exists>c \<in> set cs. specCountyMatch c clientCounty)
                 \<and> p_id p \<noteq> p_id currentPlan)
            allPlans"

section \<open>Sample inputs\<close>

text \<open>The comparison scenario: a current plan with premium 120 and out-of-pocket
  maximum 6000, candidate A (60, 5000) and candidate B (135, 7000), all three offered
  in the client's state and county.\<close>

definition samplePlan :: "int \<Rightarrow> string \<Rightarrow> string \<Rightarrow> string \<Rightarrow> Plan" where
  "samplePlan i nm prem moop =
     \<lparr> p_id = i, p_carrierId = 1, p_name = nm, stateCode = Some ''WA'',
       counties = Some [''King'', ''Pierce''], monthlyPremium = Some prem,
       maxOutOfPocket = Some moop, primaryCareCopay = None, specialistCopay = None,
       isCSnp = Some False, isDSnp = Some False \<rparr>"

definition sampleCurrent :: Plan where
  "sampleCurrent = samplePlan 1 ''Current'' ''120.00'' ''6000.00''"

definition sampleA :: Plan where
  "sampleA = samplePlan 2 ''A'' ''60.00'' ''5000.00''"

definition sampleB :: Plan where
  "sampleB = samplePlan 3 ''B'' ''135.00'' ''7000.00''"

definition sampleClient :: Client where
  "sampleClient =
     \<lparr> cl_id = 7, county = Some ''King'', state = Some ''WA'', currentPlanId = Some 1,
       usesMulticare = Some False \<rparr>"

definition sampleStorage :: Storage where
  "sampleStorage =
     \<lparr> getClient = (\<lambda>i. if i = 7 then Some sampleClient else None),
       getPlan = (\<lambda>i. if i = 1 then Some sampleCurrent else None),
       getAllPlans = [sampleB, sampleCurrent, sampleA],
       getAllCarriers = [\<lparr> c_id = 1, c_name = ''Acme'' \<rparr>] \<rparr>"

text \<open>A current plan with no out-of-pocket maximum on record, and a candidate whose
  out-of-pocket maximum is populated with 999999.\<close>

definition sampleNoMoop :: Plan where
  "sampleNoMoop = sampleCurrent\<lparr> maxOutOfPocket := None \<rparr>"

definition sampleHighMoop :: Plan where
  "sampleHighMoop = samplePlan 4 ''High'' ''120.00'' ''999999.00''"

text \<open>A small catalog for the document matcher: two carriers with one plan each.\<close>

definition catalogPlan :: "int \<Rightarrow> int \<Rightarrow> string \<Rightarrow> Plan" where
  "catalogPlan i cid nm =
     \<lparr> p_id = i, p_carrierId = cid, p_name = nm, stateCode = None, counties = None,
       monthlyPremium = None, maxOutOfPocket = None, primaryCareCopay = None,
       specialistCopay = None, isCSnp = None, isDSnp = None \<rparr>"

definition acme :: Carrier where
  "acme = \<lparr> c_id = 1, c_name = ''Acme'' \<rparr>"

definition zenith :: Carrier where
  "zenith = \<lparr> c_id = 2, c_name = ''Zenith'' \<rparr>"

definition acmeBasic :: Plan where
  "acmeBasic = catalogPlan 10 1 ''Acme Basic''"

definition zenithPlan :: Plan where
  "zenithPlan = catalogPlan 11 2 ''Zenith H1234-567''"

definition advantageGold :: Plan where
  "advantageGold = catalogPlan 12 1 ''Advantage Gold H5216-321''"

text \<open>Uploads: an image whose recognised text is given, and a PDF whose text layer is
  given.\<close>

definition imageUpload :: "string \<Rightarrow> Upload" where
  "imageUpload t =
     \<lparr> originalname = ''scan.png'', originalExt = ''.png'', size = 2048,
       mimetype = ''image/png'',
       source = \<lparr> ext = ''.png'', pdfGetText = Inl NonError, tesseractRecognize = Inr t \<rparr> \<rparr>"

definition pdfSource :: "string \<Rightarrow> DocSource" where
  "pdfSource t = \<lparr> ext = ''.PDF'', pdfGetText = Inr (Some t), tesseractRecognize = Inl NonError \<rparr>"

definition quietEnv :: Env where
  "quietEnv = \<lparr> now = 1730000000000, copyThrows = None, insertThrows = None \<rparr>"

definition emptyWorld :: World where
  "emptyWorld = \<lparr> planDocuments = [], nextDocumentId = 1, uploadedDocuments = [] \<rparr>"

definition noBenefits :: "string \<Rightarrow> unit" where
  "noBenefits t = ()"

text \<open>A plan of the client's state whose county list spells the client's county
  \<^verbatim>\<open>King\<close> in lower case.\<close>

definition sampleLowerKing :: Plan where
  "sampleLowerKing = (samplePlan 5 ''Lower'' ''0.00'' ''1000.00'')\<lparr> counties := Some [''king''] \<rparr>"









section \<open>Plan comparison: properties\<close>

lemmas scoring_defs =
  parseFloat_def isSpace_def isDigit_def digitValue_def exponentPart_def pow10_def
  orElse_def numSub_def numLess_def premiumRule_def moopRule_def pcpCopayRule_def
  specCopayRule_def snpRule_def scorePlan_def

lemmas sample_defs =
  sampleStorage_def sampleClient_def sampleCurrent_def sampleA_def sampleB_def samplePlan_def
  sampleNoMoop_def sampleHighMoop_def

lemma set_sortScored: "set (sortScored xs) = set xs"
  by (simp add: sortScored_def)

lemma scoredPlans_other_id:
  "s \<in> set (scoredPlans client k cur allPlans) \<Longrightarrow> p_id (sc_plan s) \<noteq> p_id cur"
  by (auto simp: scoredPlans_def set_sortScored availablePlans_def scorePlan_def Let_def)

lemma recommended_other_id:
  assumes "compareHandler st idParam = Inr r" and "(s, n) \<in> set (recommendedPlans r)"
  shows "p_id (sc_plan s) \<noteq> p_id (cmp_currentPlan r)"
  using assms
  by (auto simp: compareHandler_def Let_def split: option.splits if_splits
           dest!: in_set_takeD scoredPlans_other_id)

lemma sample_compare:
  "compareHandler sampleStorage (Some 7) =
     Inr \<lparr> cmp_clientId = 7, cmp_currentPlan = sampleCurrent,
           cmp_currentCarrierName = ''Acme'',
           recommendedPlans =
             [(\<lparr> sc_plan = sampleA, score = 170,
                  reasons = [SavesOnPremium (Some 60), LowerMaxOutOfPocket (Some 1000)] \<rparr>,
               ''Acme''),
              (\<lparr> sc_plan = sampleB, score = 100, reasons = [] \<rparr>, ''Acme'')],
           totalPlansConsidered = 2 \<rparr>"
  by (simp add: compareHandler_def scoredPlans_def availablePlans_def sortScored_def
        carrierNameOf_def scoring_defs sample_defs)

text \<open>
  Claim C2 (self-exclusion). For every comparison call, whatever the current plan and the
  catalog, no scored candidate carries the id of the current plan, and so none of the
  (at most three) recommended plans of a successful call does.
\<close>

theorem C2_self_exclusion:
  "(\<forall>s \<in> set (scoredPlans client k cur allPlans). p_id (sc_plan s) \<noteq> p_id cur) \<and>
   (compareHandler st idParam = Inr r \<longrightarrow>
      (\<forall>(s, n) \<in> set (recommendedPlans r). p_id (sc_plan s) \<noteq> p_id (cmp_currentPlan r)))"
proof (intro conjI ballI impI)
  fix s assume "s \<in> set (scoredPlans client k cur allPlans)"
  then show "p_id (sc_plan s) \<noteq> p_id cur" by (rule scoredPlans_other_id)
next
  fix x assume h: "compareHandler st idParam = Inr r" and x: "x \<in> set (recommendedPlans r)"
  obtain s n where sn: "x = (s, n)" by (cases x)
  from recommended_other_id [OF h] x sn
  show "case x of (s, n) \<Rightarrow> p_id (sc_plan s) \<noteq> p_id (cmp_currentPlan r)" by simp
qed

theorem C2_self_exclusion_witness:
  "\<exists>r. compareHandler sampleStorage (Some 7) = Inr r \<and> length (recommendedPlans r) = 2 \<and>
       p_id (cmp_currentPlan r) \<notin> set (map (\<lambda>(s, n). p_id (sc_plan s)) (recommendedPlans r))"
proof -
  let ?r = "projr (compareHandler sampleStorage (Some 7))"
  have e: "compareHandler sampleStorage (Some 7) = Inr ?r" by (simp add: sample_compare)
  have l: "length (recommendedPlans ?r) = 2" by (simp add: sample_compare)
  from C2_self_exclusion [of sampleClient "''King''" sampleCurrent "[]" sampleStorage "Some 7" ?r] e
  have "\<forall>(s, n) \<in> set (recommendedPlans ?r). p_id (sc_plan s) \<noteq> p_id (cmp_currentPlan ?r)"
    by blast
  then have "p_id (cmp_currentPlan ?r)
               \<notin> set (map (\<lambda>(s, n). p_id (sc_plan s)) (recommendedPlans ?r))"
    by (auto simp del: One_nat_def)
  with e l show ?thesis by blast
qed

text \<open>
  Claim C5 as stated gives candidate B a total of 80. B costs 15 a month more than the
  current plan, and the penalty applies only beyond 20, so the handler leaves B at the
  base score of 100.
\<close>

theorem C5_sample_B_not_80:
  "score (scorePlan sampleCurrent sampleB) = 100 \<and>
   score (scorePlan sampleCurrent sampleB) \<noteq> 80"
  by (simp add: scoring_defs sample_defs)

text \<open>
  Claim C5, amended. In the sample scenario candidate A scores 170 (base 100, 40 for a
  premium more than 50 lower, 30 for the lower out-of-pocket maximum), candidate B
  scores 100 (base only), and the handler ranks A above B.
\<close>

theorem C5_sample_scenario:
  "score (scorePlan sampleCurrent sampleA) = 170 \<and>
   reasons (scorePlan sampleCurrent sampleA)
     = [SavesOnPremium (Some 60), LowerMaxOutOfPocket (Some 1000)] \<and>
   score (scorePlan sampleCurrent sampleB) = 100 \<and>
   reasons (scorePlan sampleCurrent sampleB) = [] \<and>
   (\<exists>r. compareHandler sampleStorage (Some 7) = Inr r \<and>
        map (\<lambda>(s, n). (p_id (sc_plan s), score s)) (recommendedPlans r)
          = [(p_id sampleA, 170), (p_id sampleB, 100)])"
proof -
  have a: "scorePlan sampleCurrent sampleA
             = \<lparr> sc_plan = sampleA, score = 170,
                 reasons = [SavesOnPremium (Some 60), LowerMaxOutOfPocket (Some 1000)] \<rparr>"
    by (simp add: scoring_defs sample_defs)
  have b: "scorePlan sampleCurrent sampleB = \<lparr> sc_plan = sampleB, score = 100, reasons = [] \<rparr>"
    by (simp add: scoring_defs sample_defs)
  show ?thesis by (simp add: a b sample_compare)
qed

lemma parseFloat_sentinel: "parseFloat ''999999'' = Some 999999"
  by (simp add: scoring_defs)

lemma moop_bonus:
  assumes "maxOutOfPocket cur = None" "maxOutOfPocket p = Some s" "s \<noteq> []" "parseFloat s = Some v"
  shows "moopRule cur p (sc, rs) =
           (if v < 999999 then (sc + 30, rs @ [LowerMaxOutOfPocket (Some (999999 - v))])
            else (sc, rs))"
  using assms by (simp add: moopRule_def orElse_def parseFloat_sentinel numLess_def numSub_def)

text \<open>
  Claim C8, amended. In each comparison a missing premium or copay field, of the current
  plan or of the candidate, is read as \<open>0\<close>, and a missing out-of-pocket maximum as
  \<open>999999\<close>. When the current plan has no out-of-pocket maximum on record, a candidate
  whose populated out-of-pocket maximum reads as a number below 999999 earns the 30
  points; one that reads as 999999 or more earns nothing.
\<close>

theorem C8_missing_fields:
  "premiumRule (cur\<lparr> monthlyPremium := None \<rparr>) p = premiumRule (cur\<lparr> monthlyPremium := Some ''0'' \<rparr>) p \<and>
   premiumRule cur (p\<lparr> monthlyPremium := None \<rparr>) = premiumRule cur (p\<lparr> monthlyPremium := Some ''0'' \<rparr>) \<and>
   pcpCopayRule (cur\<lparr> primaryCareCopay := None \<rparr>) p = pcpCopayRule (cur\<lparr> primaryCareCopay := Some ''0'' \<rparr>) p \<and>
   pcpCopayRule cur (p\<lparr> primaryCareCopay := None \<rparr>) = pcpCopayRule cur (p\<lparr> primaryCareCopay := Some ''0'' \<rparr>) \<and>
   specCopayRule (cur\<lparr> specialistCopay := None \<rparr>) p = specCopayRule (cur\<lparr> specialistCopay := Some ''0'' \<rparr>) p \<and>
   specCopayRule cur (p\<lparr> specialistCopay := None \<rparr>) = specCopayRule cur (p\<lparr> specialistCopay := Some ''0'' \<rparr>) \<and>
   moopRule (cur\<lparr> maxOutOfPocket := None \<rparr>) p = moopRule (cur\<lparr> maxOutOfPocket := Some ''999999'' \<rparr>) p \<and>
   moopRule cur (p\<lparr> maxOutOfPocket := None \<rparr>) = moopRule cur (p\<lparr> maxOutOfPocket := Some ''999999'' \<rparr>) \<and>
   (maxOutOfPocket cur = None \<and> maxOutOfPocket p = Some s \<and> s \<noteq> [] \<and> parseFloat s = Some v \<longrightarrow>
      moopRule cur p (sc, rs) =
        (if v < 999999 then (sc + 30, rs @ [LowerMaxOutOfPocket (Some (999999 - v))])
         else (sc, rs)))"
proof (intro conjI impI)
  show "premiumRule (cur\<lparr> monthlyPremium := None \<rparr>) p = premiumRule (cur\<lparr> monthlyPremium := Some ''0'' \<rparr>) p"
    by (rule ext) (simp add: premiumRule_def orElse_def)
  show "premiumRule cur (p\<lparr> monthlyPremium := None \<rparr>) = premiumRule cur (p\<lparr> monthlyPremium := Some ''0'' \<rparr>)"
    by (rule ext) (simp add: premiumRule_def orElse_def)
  show "pcpCopayRule (cur\<lparr> primaryCareCopay := None \<rparr>) p = pcpCopayRule (cur\<lparr> primaryCareCopay := Some ''0'' \<rparr>) p"
    by (rule ext) (simp add: pcpCopayRule_def orElse_def)
  show "pcpCopayRule cur (p\<lparr> primaryCareCopay := None \<rparr>) = pcpCopayRule cur (p\<lparr> primaryCareCopay := Some ''0'' \<rparr>)"
    by (rule ext) (simp add: pcpCopayRule_def orElse_def)
  show "specCopayRule (cur\<lparr> specialistCopay := None \<rparr>) p = specCopayRule (cur\<lparr> specialistCopay := Some ''0'' \<rparr>) p"
    by (rule ext) (simp add: specCopayRule_def orElse_def)
  show "specCopayRule cur (p\<lparr> specialistCopay := None \<rparr>) = specCopayRule cur (p\<lparr> specialistCopay := Some ''0'' \<rparr>)"
    by (rule ext) (simp add: specCopayRule_def orElse_def)
  show "moopRule (cur\<lparr> maxOutOfPocket := None \<rparr>) p = moopRule (cur\<lparr> maxOutOfPocket := Some ''999999'' \<rparr>) p"
    by (rule ext) (simp add: moopRule_def orElse_def)
  show "moopRule cur (p\<lparr> maxOutOfPocket := None \<rparr>) = moopRule cur (p\<lparr> maxOutOfPocket := Some ''999999'' \<rparr>)"
    by (rule ext) (simp add: moopRule_def orElse_def)
next
  assume "maxOutOfPocket cur = None \<and> maxOutOfPocket p = Some s \<and> s \<noteq> [] \<and> parseFloat s = Some v"
  then show "moopRule cur p (sc, rs) =
        (if v < 999999 then (sc + 30, rs @ [LowerMaxOutOfPocket (Some (999999 - v))])
         else (sc, rs))"
    using moop_bonus by blast
qed

theorem C8_missing_fields_witness:
  "maxOutOfPocket sampleNoMoop = None \<and> maxOutOfPocket sampleA = Some ''5000.00'' \<and>
   parseFloat ''5000.00'' = Some 5000 \<and>
   moopRule sampleNoMoop sampleA (100, []) = (130, [LowerMaxOutOfPocket (Some 994999)])"
proof -
  have h: "maxOutOfPocket sampleNoMoop = None \<and> maxOutOfPocket sampleA = Some ''5000.00'' \<and>
           ''5000.00'' \<noteq> [] \<and> parseFloat ''5000.00'' = Some 5000"
    by (simp add: sample_defs scoring_defs)
  with C8_missing_fields [of sampleNoMoop sampleA "''5000.00''" 5000 100 "[]"]
  show ?thesis by simp
qed

text \<open>
  Claim C8 as stated promises the bonus to a candidate with any populated out-of-pocket
  maximum. A candidate whose out-of-pocket maximum is 999999.00 is not below the
  sentinel that stands in for the current plan's missing value, and earns nothing.
\<close>

theorem C8_populated_moop_without_bonus:
  "maxOutOfPocket sampleNoMoop = None \<and> maxOutOfPocket sampleHighMoop = Some ''999999.00'' \<and>
   moopRule sampleNoMoop sampleHighMoop (100, []) = (100, []) \<and>
   reasons (scorePlan sampleNoMoop sampleHighMoop) = []"
  by (simp add: sample_defs scoring_defs)

text \<open>What the handler's filter keeps is kept by the filter of the specification; a plan
  without a county list is never kept; a plan that lists King and Pierce is never kept
  for a client of Snohomish.\<close>

lemma availablePlans_within_spec:
  "set (availablePlans client k cur allPlans) \<subseteq> set (specAvailablePlans client k cur allPlans)"
  by (auto simp: availablePlans_def specAvailablePlans_def specCountyMatch_def split: option.splits)

lemma king_pierce_not_snohomish:
  "counties p = Some [''King'', ''Pierce''] \<Longrightarrow>
     p \<notin> set (availablePlans client ''Snohomish'' cur allPlans)"
  by (auto simp: availablePlans_def)

lemma no_county_list_excluded:
  "counties p = None \<Longrightarrow> p \<notin> set (availablePlans client k cur allPlans)"
  by (auto simp: availablePlans_def)

text \<open>
  Claim C4 at a concrete input. The client's county is \<open>King\<close>; a plan of the client's
  state lists the county as \<open>king\<close>. Compared without regard to case, as the claim and
  the recommendation query of the storage layer do, the plan is a candidate; the
  comparison handler tests \<^verbatim>\<open>plan.counties.includes(client.county)\<close> and drops it.
\<close>

theorem C4_county_compared_exactly:
  "state sampleClient = stateCode sampleLowerKing
   \<and> counties sampleLowerKing = Some [''king'']
   \<and> specCountyMatch ''king'' ''King''
   \<and> specAvailablePlans sampleClient ''King'' sampleCurrent [sampleLowerKing] = [sampleLowerKing]
   \<and> availablePlans sampleClient ''King'' sampleCurrent [sampleLowerKing] = []"
  by code_simp

section \<open>Text extraction and batch upload: properties\<close>

lemma length_trim_le: "length (trim s) \<le> length s"
proof -
  have "length (trim s) \<le> length (rev (dropWhile isSpace s))"
    unfolding trim_def using length_dropWhile_le [of isSpace "rev (dropWhile isSpace s)"] by simp
  also have "\<dots> \<le> length s"
    using length_dropWhile_le [of isSpace s] by simp
  finally show ?thesis .
qed

lemma scanned_rethrown: "pdfCatch (Error scannedPdfMessage) = Error scannedPdfMessage"
  by (simp add: pdfCatch_def scannedPdfMessage_def)

text \<open>
  Claim C6 (scanned PDF). For a PDF whose text layer was read and is shorter than 50
  characters, the extraction fails with the scanned-PDF error, whose message tells the
  caller to convert the document to an image and upload it again; the short text is
  never returned.
\<close>

theorem C6_scanned_pdf:
  assumes "toLowerCase (ext d) = ''.pdf''"
      and "pdfGetText d = Inr resultText"
      and "length (case resultText of Some t \<Rightarrow> t | None \<Rightarrow> []) < 50"
  shows "extractTextFromDocument d = Inl (Error scannedPdfMessage)
       \<and> strIncludes scannedPdfMessage
            ''Please convert the document to JPG or PNG format and re-upload''"
proof
  let ?t = "case resultText of Some t \<Rightarrow> t | None \<Rightarrow> []"
  have "length (trim ?t) < 50" using length_trim_le [of ?t] assms(3) by linarith
  then show "extractTextFromDocument d = Inl (Error scannedPdfMessage)"
    using assms(1,2) by (simp add: extractTextFromDocument_def scanned_rethrown)
  show "strIncludes scannedPdfMessage
          ''Please convert the document to JPG or PNG format and re-upload''"
    by (simp add: scannedPdfMessage_def)
qed

theorem C6_scanned_pdf_witness:
  "toLowerCase (ext (pdfSource ''only a few words'')) = ''.pdf'' \<and>
   extractTextFromDocument (pdfSource ''only a few words'') = Inl (Error scannedPdfMessage)"
proof -
  have a: "toLowerCase (ext (pdfSource ''only a few words'')) = ''.pdf''"
    by (simp add: pdfSource_def toLowerCase_def toLowerChar_def)
  have b: "pdfGetText (pdfSource ''only a few words'') = Inr (Some ''only a few words'')"
    by (simp add: pdfSource_def)
  have c: "length (case Some ''only a few words'' of Some t \<Rightarrow> t | None \<Rightarrow> []) < 50"
    by simp
  from C6_scanned_pdf [OF a b c] a show ?thesis by simp
qed

lemma parse_acme:
  "parsePlanDocumentText noBenefits ''Acme Basic plan H1234-567'' [acme, zenith] [acmeBasic, zenithPlan]
    = \<lparr> carrier = Some acme, plan = Some acmeBasic, documentType = ''UNKNOWN'', confidence = 100,
        carrierMatches = [(''Acme'', 100), (''Zenith'', 0)],
        planMatches = [(''Zenith H1234-567'', ''Zenith'', 100), (''Acme Basic'', ''Acme'', 90)],
        extractedBenefits = None, detectedPlanIds = [''H1234-567''] \<rparr>"
  by code_simp
lemmas upload_defs = processFile_def extractTextFromDocument_def imageUpload_def toLowerCase_def toLowerChar_def
  trim_def isSpace_def failsGate_def carrierPlanMismatch_def assign_def quietEnv_def emptyWorld_def
  newFileName_def showInt_def isAlnum_def review_def gateError_def messageOr_def Let_def
lemma showNat_samples:
  "showNat 1730000000000 = ''1730000000000''" "showNat 10 = ''10''"
  by (simp_all add: showNat.simps)
lemmas catalog_defs = acme_def zenith_def acmeBasic_def zenithPlan_def catalogPlan_def
lemma process_acme:
  "processFile noBenefits [acme, zenith] [acmeBasic, zenithPlan] quietEnv (imageUpload ''Acme Basic plan H1234-567'') emptyWorld
   = (Assigned \<lparr> as_fileName = ''scan.png'', as_carrier = ''Acme'', as_plan = ''Acme Basic'', as_planId = 10,
                 as_documentType = ''UNKNOWN'', as_documentId = 1, as_confidence = 100, as_extractedBenefits = None \<rparr>,
      \<lparr> planDocuments = [\<lparr> pd_id = 1, pd_planId = 10, pd_documentType = ''UNKNOWN'', pd_fileName = ''scan.png'',
                            pd_filePath = ''UNKNOWN_10_1730000000000.png'', pd_fileSize = 2048 \<rparr>],
        nextDocumentId = 2, uploadedDocuments = [''UNKNOWN_10_1730000000000.png''] \<rparr>)"
  by (simp add: upload_defs parse_acme [unfolded catalog_defs] catalog_defs showNat_samples)

text \<open>Over a whole batch, the plan-document records created are as many as the success
  entries, and a request answered with an error status changes nothing.\<close>

lemma processFile_documents:
  assumes "processFile xb cs ps env f w = (r, w')"
  shows "length (planDocuments w') = length (planDocuments w) + (if success r then 1 else 0)"
  using assms
  by (auto simp: processFile_def assign_def Let_def
           split: sum.splits if_splits option.splits prod.splits)

lemma batchFold_documents:
  "fold (batchStep xb cs ps) files (rs, w) = (rs', w') \<Longrightarrow>
   length (planDocuments w') + length (filter success rs)
     = length (planDocuments w) + length (filter success rs')"
proof (induction files arbitrary: rs w)
  case Nil then show ?case by simp
next
  case (Cons fe files)
  obtain f env where fe: "fe = (f, env)" by (cases fe)
  obtain r w1 where p: "processFile xb cs ps env f w = (r, w1)"
    by (cases "processFile xb cs ps env f w")
  have "batchStep xb cs ps fe (rs, w) = (rs @ [r], w1)"
    by (simp add: batchStep_def fe p)
  with Cons.prems have "fold (batchStep xb cs ps) files (rs @ [r], w1) = (rs', w')"
    by simp
  from Cons.IH [OF this] processFile_documents [OF p] show ?case by (simp split: if_splits)
qed

lemma batchUpload_documents:
  "batchUpload xb cs ps files w = (Inr s, w') \<Longrightarrow>
     length (planDocuments w') = length (planDocuments w) + successful s"
  "batchUpload xb cs ps files w = (Inl e, w') \<Longrightarrow> w' = w"
proof -
  assume a: "batchUpload xb cs ps files w = (Inr s, w')"
  obtain rs w1 where f: "fold (batchStep xb cs ps) files ([], w) = (rs, w1)"
    by (cases "fold (batchStep xb cs ps) files ([], w)")
  with a have "w' = w1" "successful s = length (filter success rs)"
    by (auto simp: batchUpload_def Let_def split: if_splits option.splits prod.splits)
  with batchFold_documents [OF f] show "length (planDocuments w') = length (planDocuments w) + successful s"
    by simp
next
  assume "batchUpload xb cs ps files w = (Inl e, w')"
  then show "w' = w"
    by (auto simp: batchUpload_def Let_def split: if_splits option.splits prod.splits)
qed


lemma detect_no_keyword:
  assumes "\<forall>(ty, kws) \<in> set docTypePatterns. \<forall>k \<in> set kws. \<not> strIncludes upperText k"
  shows "detectDocumentType upperText = []"
proof -
  have "find (\<lambda>(ty, keywords). \<exists>keyword \<in> set keywords. strIncludes upperText keyword)
          docTypePatterns = None"
    using assms by (auto simp: find_None_iff)
  then show ?thesis by (simp add: detectDocumentType_def)
qed

lemma parse_documentType:
  "documentType (parsePlanDocumentText xb t cs ps) =
     (if detectDocumentType (toUpperCase t) = [] then ''UNKNOWN''
      else detectDocumentType (toUpperCase t))"
  by (simp add: parsePlanDocumentText_def Let_def split: prod.splits)

lemma no_keyword_unknown:
  assumes "\<forall>(ty, kws) \<in> set docTypePatterns. \<forall>k \<in> set kws. \<not> strIncludes (toUpperCase t) k"
  shows "documentType (parsePlanDocumentText xb t cs ps) = ''UNKNOWN''"
  using detect_no_keyword [OF assms] by (simp add: parse_documentType)

lemma unknown_not_valid: "\<not> validDocumentType ''UNKNOWN''"
  by (simp add: validDocumentType_def REQUIRED_DOCUMENT_TYPES_def)

text \<open>
  Claim C3 at a concrete input. A text without any document-type keyword is classified
  \<open>UNKNOWN\<close>, as the claim says. The claim goes on that such a document is never
  auto-assigned; the batch handler tests carrier, plan and confidence only, and the text
  below, which names a carrier and one of its plans, is stored as a plan document of
  type \<open>UNKNOWN\<close>: a type that the manual upload route refuses and that the comment on
  the column does not list.
\<close>

theorem C3_unknown_assigned:
  "documentType (parsePlanDocumentText noBenefits ''Acme Basic plan H1234-567'' [acme, zenith]
                   [acmeBasic, zenithPlan]) = ''UNKNOWN''
   \<and> \<not> validDocumentType ''UNKNOWN''
   \<and> success (fst (processFile noBenefits [acme, zenith] [acmeBasic, zenithPlan] quietEnv
                     (imageUpload ''Acme Basic plan H1234-567'') emptyWorld))
   \<and> map pd_documentType
        (planDocuments (snd (processFile noBenefits [acme, zenith] [acmeBasic, zenithPlan] quietEnv
                               (imageUpload ''Acme Basic plan H1234-567'') emptyWorld)))
       = [''UNKNOWN'']"
  by (simp add: process_acme parse_acme unknown_not_valid)

section \<open>Carrier and plan matching: properties\<close>

lemma ratio_bounds:
  fixes m n :: nat and k :: rat
  assumes "m \<le> n" "0 < n" "0 \<le> k"
  shows "0 \<le> (of_nat m / of_nat n) * k" "(of_nat m / of_nat n) * k \<le> k"
proof -
  have q: "(of_nat m :: rat) / of_nat n \<le> 1" using assms(1,2) by simp
  have q0: "0 \<le> (of_nat m :: rat) / of_nat n" by simp
  show "0 \<le> (of_nat m / of_nat n) * k" using q0 assms(3) by simp
  show "(of_nat m / of_nat n) * k \<le> k"
    using mult_right_mono [OF q assms(3)] by simp
qed

lemma carrierScore_bounds: "0 \<le> carrierScore u c \<and> carrierScore u c \<le> 100"
proof -
  let ?ws = "filter (\<lambda>w. length w > 2) (splitWs (toUpperCase (c_name c)))"
  let ?m = "length (filter (\<lambda>w. strIncludes u w) ?ws)"
  have le: "?m \<le> length ?ws" by (rule length_filter_le)
  show ?thesis
  proof (cases "strIncludes u (toUpperCase (c_name c))")
    case True then show ?thesis by (simp add: carrierScore_def)
  next
    case False
    show ?thesis
    proof (cases "length ?ws > 0")
      case True
      from ratio_bounds [OF le True, of 100] False True show ?thesis
        by (simp add: carrierScore_def Let_def)
    next
      case f: False
      with False show ?thesis by (simp add: carrierScore_def Let_def)
    qed
  qed
qed

lemma planScore_bounds: "0 \<le> planScore u ids p \<and> planScore u ids p \<le> 100"
proof -
  let ?ws = "filter (\<lambda>w. length w > 2) (splitWs (toUpperCase (p_name p)))"
  let ?m = "length (filter (\<lambda>w. strIncludes u w) ?ws)"
  have le: "?m \<le> length ?ws" by (rule length_filter_le)
  have r: "length ?ws > 0 \<Longrightarrow> 0 \<le> (of_nat ?m / of_nat (length ?ws)) * (80::rat)
              \<and> (of_nat ?m / of_nat (length ?ws)) * (80::rat) \<le> 100"
    using ratio_bounds [OF le, of 80] by auto
  show ?thesis
    using r by (auto simp: planScore_def Let_def)
qed

lemma carrierStep_bounds:
  assumes "0 \<le> fst (snd st) \<and> fst (snd st) \<le> 100"
  shows "0 \<le> fst (snd (carrierStep u c st)) \<and> fst (snd (carrierStep u c st)) \<le> 100"
  using assms carrierScore_bounds [of u c]
  by (auto simp: carrierStep_def Let_def split: prod.splits)

lemma carrierFold_bounds:
  "0 \<le> fst (snd st) \<and> fst (snd st) \<le> 100 \<Longrightarrow>
   0 \<le> fst (snd (fold (carrierStep u) cs st)) \<and> fst (snd (fold (carrierStep u) cs st)) \<le> 100"
proof (induction cs arbitrary: st)
  case Nil then show ?case by simp
next
  case (Cons c cs)
  from Cons.IH [OF carrierStep_bounds [OF Cons.prems]] show ?case by simp
qed

lemma planStep_bounds:
  assumes "0 \<le> fst (snd st) \<and> fst (snd st) \<le> 100"
  shows "0 \<le> fst (snd (planStep u ids cs bc p st)) \<and> fst (snd (planStep u ids cs bc p st)) \<le> 100"
  using assms planScore_bounds [of u ids p]
  by (auto simp: planStep_def Let_def split: prod.splits)

lemma planFold_bounds:
  "0 \<le> fst (snd st) \<and> fst (snd st) \<le> 100 \<Longrightarrow>
   0 \<le> fst (snd (fold (planStep u ids cs bc) ps st))
   \<and> fst (snd (fold (planStep u ids cs bc) ps st)) \<le> 100"
proof (induction ps arbitrary: st)
  case Nil then show ?case by simp
next
  case (Cons p ps)
  from Cons.IH [OF planStep_bounds [OF Cons.prems]] show ?case by simp
qed

lemma overallConfidence_bounds:
  assumes "0 \<le> a" "a \<le> 100" "0 \<le> b" "b \<le> 100"
  shows "0 \<le> overallConfidence bc a bp b \<and> overallConfidence bc a bp b \<le> 100"
  using assms by (auto simp: overallConfidence_def max_def split: option.splits)

lemma mathRound_bounds:
  assumes "0 \<le> x" "x \<le> 100"
  shows "0 \<le> mathRound x \<and> mathRound x \<le> 100"
proof -
  have "0 \<le> \<lfloor>x + 1 / 2\<rfloor>" using assms(1) by (simp add: zero_le_floor)
  moreover have "\<lfloor>x + 1 / 2\<rfloor> < 101"
    using assms(2) by (simp add: floor_less_iff)
  ultimately show ?thesis by (simp add: mathRound_def)
qed

lemma parse_confidence:
  "confidence (parsePlanDocumentText xb t cs ps) =
     mathRound
       (overallConfidence
          (fst (carrierLoop (toUpperCase t) cs))
          (fst (snd (carrierLoop (toUpperCase t) cs)))
          (fst (planLoop (toUpperCase t) (matchPlanIds t) cs (fst (carrierLoop (toUpperCase t) cs)) ps))
          (fst (snd (planLoop (toUpperCase t) (matchPlanIds t) cs
                       (fst (carrierLoop (toUpperCase t) cs)) ps))))"
  by (simp add: parsePlanDocumentText_def Let_def split: prod.splits)

lemma parse_carrier:
  "carrier (parsePlanDocumentText xb t cs ps) = fst (carrierLoop (toUpperCase t) cs)"
  by (simp add: parsePlanDocumentText_def Let_def split: prod.splits)

lemma parse_plan:
  "plan (parsePlanDocumentText xb t cs ps) =
     fst (planLoop (toUpperCase t) (matchPlanIds t) cs (fst (carrierLoop (toUpperCase t) cs)) ps)"
  by (simp add: parsePlanDocumentText_def Let_def split: prod.splits)

text \<open>
  Claim C9 (confidence bound). For every text and every catalog of carriers and plans
  the confidence returned lies between 0 and 100, and it is 0 when neither a carrier
  nor a plan was accepted.
\<close>

theorem C9_confidence_bounds:
  "0 \<le> confidence (parsePlanDocumentText xb t cs ps)
   \<and> confidence (parsePlanDocumentText xb t cs ps) \<le> 100
   \<and> (carrier (parsePlanDocumentText xb t cs ps) = None
        \<and> plan (parsePlanDocumentText xb t cs ps) = None
      \<longrightarrow> confidence (parsePlanDocumentText xb t cs ps) = 0)"
proof -
  let ?u = "toUpperCase t"
  let ?cl = "carrierLoop ?u cs"
  let ?pl = "planLoop ?u (matchPlanIds t) cs (fst ?cl) ps"
  have c: "0 \<le> fst (snd ?cl) \<and> fst (snd ?cl) \<le> 100"
    unfolding carrierLoop_def by (rule carrierFold_bounds) simp
  have p: "0 \<le> fst (snd ?pl) \<and> fst (snd ?pl) \<le> 100"
    unfolding planLoop_def by (rule planFold_bounds) simp
  from c p have o: "0 \<le> overallConfidence (fst ?cl) (fst (snd ?cl)) (fst ?pl) (fst (snd ?pl))
                  \<and> overallConfidence (fst ?cl) (fst (snd ?cl)) (fst ?pl) (fst (snd ?pl)) \<le> 100"
    by (intro overallConfidence_bounds) simp_all
  then have b: "0 \<le> confidence (parsePlanDocumentText xb t cs ps)
              \<and> confidence (parsePlanDocumentText xb t cs ps) \<le> 100"
    unfolding parse_confidence by (intro mathRound_bounds) simp_all
  have z: "carrier (parsePlanDocumentText xb t cs ps) = None
        \<and> plan (parsePlanDocumentText xb t cs ps) = None
      \<longrightarrow> confidence (parsePlanDocumentText xb t cs ps) = 0"
  proof (intro impI, elim conjE)
    assume c0: "carrier (parsePlanDocumentText xb t cs ps) = None"
       and p0: "plan (parsePlanDocumentText xb t cs ps) = None"
    from c0 have a: "fst ?cl = None" by (simp add: parse_carrier)
    from p0 a have b: "fst (planLoop ?u (matchPlanIds t) cs None ps) = None"
      by (simp add: parse_plan)
    have h: "\<lfloor>(1 / 2 :: rat)\<rfloor> = 0" by (rule floor_unique) simp_all
    show "confidence (parsePlanDocumentText xb t cs ps) = 0"
      by (simp add: parse_confidence a b overallConfidence_def mathRound_def h)
  qed
  from b z show ?thesis by blast
qed

theorem C9_confidence_bounds_witness:
  "carrier (parsePlanDocumentText noBenefits ''hello world'' [acme, zenith] [acmeBasic, zenithPlan]) = None
   \<and> plan (parsePlanDocumentText noBenefits ''hello world'' [acme, zenith] [acmeBasic, zenithPlan]) = None
   \<and> confidence (parsePlanDocumentText noBenefits ''hello world'' [acme, zenith] [acmeBasic, zenithPlan]) = 0
   \<and> 0 \<le> confidence (parsePlanDocumentText noBenefits ''Acme Basic plan H1234-567'' [acme, zenith]
                        [acmeBasic, zenithPlan])
   \<and> confidence (parsePlanDocumentText noBenefits ''Acme Basic plan H1234-567'' [acme, zenith]
                    [acmeBasic, zenithPlan]) \<le> 100"
proof -
  have n: "carrier (parsePlanDocumentText noBenefits ''hello world'' [acme, zenith] [acmeBasic, zenithPlan]) = None
         \<and> plan (parsePlanDocumentText noBenefits ''hello world'' [acme, zenith] [acmeBasic, zenithPlan]) = None"
    by code_simp
  from n C9_confidence_bounds [of noBenefits "''hello world''" "[acme, zenith]" "[acmeBasic, zenithPlan]"]
       C9_confidence_bounds [of noBenefits "''Acme Basic plan H1234-567''" "[acme, zenith]"
         "[acmeBasic, zenithPlan]"]
  show ?thesis by blast
qed

lemma strIncludes_iff: "strIncludes s t \<longleftrightarrow> (\<exists>a b. s = a @ t @ b)"
proof (induction s)
  case Nil then show ?case by simp
next
  case (Cons c cs)
  have "(\<exists>a b. c # cs = a @ t @ b) \<longleftrightarrow> prefix t (c # cs) \<or> (\<exists>a b. cs = a @ t @ b)"
  proof
    assume "\<exists>a b. c # cs = a @ t @ b"
    then obtain a b where ab: "c # cs = a @ t @ b" by blast
    show "prefix t (c # cs) \<or> (\<exists>a b. cs = a @ t @ b)"
    proof (cases a)
      case Nil with ab show ?thesis by (simp add: prefix_def)
    next
      case (Cons x a') with ab have "cs = a' @ t @ b" by simp
      then show ?thesis by blast
    qed
  next
    assume "prefix t (c # cs) \<or> (\<exists>a b. cs = a @ t @ b)"
    then show "\<exists>a b. c # cs = a @ t @ b"
    proof
      assume "prefix t (c # cs)"
      then obtain b where "c # cs = t @ b" unfolding prefix_def by blast
      then have "c # cs = [] @ t @ b" by simp
      then show ?thesis by blast
    next
      assume "\<exists>a b. cs = a @ t @ b"
      then obtain a b where "cs = a @ t @ b" by blast
      then have "c # cs = (c # a) @ t @ b" by simp
      then show ?thesis by blast
    qed
  qed
  with Cons.IH show ?case by simp
qed

lemma digit_not_letter: "isDigit c \<Longrightarrow> c \<notin> set ''HS''"
  by (auto simp: isDigit_def)

lemma planIdAt_digits:
  assumes "planIdAt s"
  shows "1 \<le> k \<and> k \<le> 4 \<or> 6 \<le> k \<and> k \<le> 8 \<Longrightarrow> isDigit (s ! k)"
proof -
  assume k: "1 \<le> k \<and> k \<le> 4 \<or> 6 \<le> k \<and> k \<le> 8"
  from assms have l: "9 \<le> length s"
    and a: "list_all isDigit (take 4 (drop 1 s))"
    and b: "list_all isDigit (take 3 (drop 6 s))"
    by (simp_all add: planIdAt_def)
  from k show "isDigit (s ! k)"
  proof
    assume r: "1 \<le> k \<and> k \<le> 4"
    then have h: "k - 1 < 4" and e: "1 + (k - 1) = k" by auto
    from h l have "k - 1 < length (take 4 (drop 1 s))" by simp
    with a have "isDigit (take 4 (drop 1 s) ! (k - 1))" by (simp only: list_all_length)
    moreover have "take 4 (drop 1 s) ! (k - 1) = s ! (1 + (k - 1))"
      using h l by (simp only: nth_take) (rule nth_drop, simp)
    ultimately show ?thesis by (simp only: e)
  next
    assume r: "6 \<le> k \<and> k \<le> 8"
    then have h: "k - 6 < 3" and e: "6 + (k - 6) = k" by auto
    from h l have "k - 6 < length (take 3 (drop 6 s))" by simp
    with b have "isDigit (take 3 (drop 6 s) ! (k - 6))" by (simp only: list_all_length)
    moreover have "take 3 (drop 6 s) ! (k - 6) = s ! (6 + (k - 6))"
      using h l by (simp only: nth_take) (rule nth_drop, simp)
    ultimately show ?thesis by (simp only: e)
  qed
qed

lemma planIdAt_no_letter:
  assumes "planIdAt s" "1 \<le> k" "k < 9"
  shows "s ! k \<notin> set ''HS''"
proof (cases "k = 5")
  case True
  from assms(1) have "s ! 5 = CHR ''-''" by (simp add: planIdAt_def)
  with True show ?thesis by simp
next
  case False
  with assms(2,3) have "1 \<le> k \<and> k \<le> 4 \<or> 6 \<le> k \<and> k \<le> 8" by linarith
  then have "isDigit (s ! k)" by (rule planIdAt_digits [OF assms(1)])
  then show ?thesis by (rule digit_not_letter)
qed

lemma planIdAt_token_append:
  assumes "isPlanIdToken tok"
  shows "planIdAt (tok @ b)"
proof -
  from assms have p: "planIdAt tok" and l: "length tok = 9" by (simp_all add: isPlanIdToken_def)
  from l have "take 4 (drop 1 (tok @ b)) = take 4 (drop 1 tok)"
    and "take 3 (drop 6 (tok @ b)) = take 3 (drop 6 tok)" by simp_all
  with p l show ?thesis by (simp add: planIdAt_def nth_append)
qed

lemma token_first: "isPlanIdToken tok \<Longrightarrow> tok ! 0 \<in> set ''HS''"
  by (simp add: isPlanIdToken_def planIdAt_def)

lemma matchPlanIds_complete:
  assumes tok: "isPlanIdToken tok"
  shows "s = a @ tok @ b \<Longrightarrow> tok \<in> set (matchPlanIds s)"
proof (induction s arbitrary: a rule: matchPlanIds.induct)
  case 1
  with tok show ?case by (simp add: isPlanIdToken_def)
next
  case (2 c cs)
  from tok have len: "length tok = 9" by (simp add: isPlanIdToken_def)
  show ?case
  proof (cases "planIdAt (c # cs)")
    case True
    show ?thesis
    proof (cases "a = []")
      case e: True
      with "2.prems" have "take 9 (c # cs) = tok" using len by simp
      with True show ?thesis by simp
    next
      case ne: False
      have "9 \<le> length a"
      proof (rule ccontr)
        assume "\<not> 9 \<le> length a"
        with ne have k: "1 \<le> length a" "length a < 9" by (simp_all add: Suc_le_eq)
        from "2.prems" len have "(c # cs) ! length a = tok ! 0"
          by (simp add: nth_append)
        with token_first [OF tok] planIdAt_no_letter [OF True k] show False by simp
      qed
      with "2.prems" have "drop 9 (c # cs) = drop 9 a @ tok @ b" by simp
      from "2.IH"(1) [OF True this] True show ?thesis by simp
    qed
  next
    case False
    have "a \<noteq> []"
    proof
      assume "a = []"
      with "2.prems" planIdAt_token_append [OF tok, of b] False show False by simp
    qed
    then obtain x a' where "a = x # a'" by (cases a) auto
    with "2.prems" have "cs = a' @ tok @ b" by simp
    from "2.IH"(2) [OF False this] False show ?thesis by simp
  qed
qed

lemma token_chars:
  assumes "isPlanIdToken tok" "c \<in> set tok"
  shows "c \<in> set ''HS-0123456789''"
proof -
  from assms(1) have p: "planIdAt tok" and l: "length tok = 9" by (simp_all add: isPlanIdToken_def)
  from assms(2) l obtain i where i: "i < 9" "tok ! i = c" by (auto simp: in_set_conv_nth)
  consider "i = 0" | "i = 5" | "1 \<le> i \<and> i \<le> 4 \<or> 6 \<le> i \<and> i \<le> 8" using i(1) by linarith
  then show ?thesis
  proof cases
    case 1 with token_first [OF assms(1)] i show ?thesis by auto
  next
    case 2 with p i show ?thesis by (simp add: planIdAt_def)
  next
    case 3
    from planIdAt_digits [OF p 3] i show ?thesis by (auto simp: isDigit_def)
  qed
qed

lemma map_of_zip_None: "c \<notin> set xs \<Longrightarrow> map_of (zip xs ys) c = None"
  by (auto simp: map_of_eq_None_iff dest: set_zip_leftD)

lemma upper_not_lower:
  assumes "c \<notin> set ''abcdefghijklmnopqrstuvwxyz''"
  shows "toUpperChar c = c"
proof -
  from assms
  have "map_of (zip ''abcdefghijklmnopqrstuvwxyz'' ''ABCDEFGHIJKLMNOPQRSTUVWXYZ'') c = None"
    by (rule map_of_zip_None)
  then show ?thesis unfolding toUpperChar_def by (simp only: option.simps)
qed

lemma token_char_not_lower:
  "c \<in> set ''HS-0123456789'' \<Longrightarrow> c \<notin> set ''abcdefghijklmnopqrstuvwxyz''"
  by auto

lemma upper_token_char: "c \<in> set ''HS-0123456789'' \<Longrightarrow> toUpperChar c = c"
  by (rule upper_not_lower) (rule token_char_not_lower)

lemma toUpperCase_token: "isPlanIdToken tok \<Longrightarrow> toUpperCase tok = tok"
  unfolding toUpperCase_def
  by (rule map_idI) (rule upper_token_char, rule token_chars)

lemma strIncludes_upper_token:
  assumes "isPlanIdToken tok" "strIncludes s tok"
  shows "strIncludes (toUpperCase s) tok"
proof -
  from assms(2) obtain a b where "s = a @ tok @ b" by (auto simp: strIncludes_iff)
  then have "toUpperCase s = toUpperCase a @ toUpperCase tok @ toUpperCase b"
    by (simp add: toUpperCase_def)
  with toUpperCase_token [OF assms(1)] show ?thesis by (auto simp: strIncludes_iff)
qed

lemma planScore_found:
  assumes "pid \<in> set ids" "strIncludes (toUpperCase (p_name p)) pid"
  shows "planScore u ids p = 100"
  using assms by (auto simp: planScore_def Let_def)

lemma planFold_matches:
  "snd (snd (fold (planStep u ids cs bc) ps st))
     = snd (snd st) @ map (\<lambda>p. (p_name p, carrierNameOf cs (p_carrierId p), planScore u ids p)) ps"
proof (induction ps arbitrary: st)
  case Nil then show ?case by simp
next
  case (Cons p ps)
  have "snd (snd (planStep u ids cs bc p st))
          = snd (snd st) @ [(p_name p, carrierNameOf cs (p_carrierId p), planScore u ids p)]"
    by (simp add: planStep_def Let_def split: prod.splits)
  with Cons.IH [of "planStep u ids cs bc p st"] show ?case by simp
qed

lemma parse_planMatches:
  "set (planMatches (parsePlanDocumentText xb t cs ps))
     = (\<lambda>p. (p_name p, carrierNameOf cs (p_carrierId p),
              planScore (toUpperCase t) (matchPlanIds t) p)) ` set ps"
proof -
  have "planMatches (parsePlanDocumentText xb t cs ps)
          = sortByScoreDesc (\<lambda>m. snd (snd m))
              (snd (snd (planLoop (toUpperCase t) (matchPlanIds t) cs
                           (fst (carrierLoop (toUpperCase t) cs)) ps)))"
    by (simp add: parsePlanDocumentText_def Let_def split: prod.splits)
  then show ?thesis
    by (simp add: sortByScoreDesc_def planLoop_def planFold_matches)
qed

text \<open>
  Claim C7 (plan-ID short-circuit). When a plan-ID token (\<open>H\<close> or \<open>S\<close>, four digits, a
  hyphen, three digits) occurs in the text and in a plan's name, the global match finds
  it, the upper-cased name still contains it, and the plan's score is exactly 100
  whatever else the text holds; the plan's entry among the plan candidates carries that
  score. The witness is the text with \<open>H5216-321\<close> against the plan named
  \<open>Advantage Gold H5216-321\<close>.
\<close>

theorem C7_plan_id_short_circuit:
  "(isPlanIdToken tok \<and> strIncludes t tok \<and> strIncludes (p_name p) tok \<longrightarrow>
      planScore (toUpperCase t) (matchPlanIds t) p = 100
      \<and> (p \<in> set ps \<longrightarrow>
            (p_name p, carrierNameOf cs (p_carrierId p), 100)
              \<in> set (planMatches (parsePlanDocumentText xb t cs ps))))
   \<and> (strIncludes t ''H5216-321'' \<and> p_name p = ''Advantage Gold H5216-321'' \<longrightarrow>
        planScore (toUpperCase t) (matchPlanIds t) p = 100)"
proof -
  have g: "planScore (toUpperCase t) (matchPlanIds t) p = 100"
    if tok: "isPlanIdToken tok" and t: "strIncludes t tok" and n: "strIncludes (p_name p) tok"
    for tok
  proof -
    from t obtain a b where "t = a @ tok @ b" by (auto simp: strIncludes_iff)
    then have "tok \<in> set (matchPlanIds t)" by (rule matchPlanIds_complete [OF tok])
    moreover have "strIncludes (toUpperCase (p_name p)) tok"
      using tok n by (rule strIncludes_upper_token)
    ultimately show ?thesis by (rule planScore_found)
  qed
  have m: "(p_name p, carrierNameOf cs (p_carrierId p), 100)
             \<in> set (planMatches (parsePlanDocumentText xb t cs ps))"
    if "planScore (toUpperCase t) (matchPlanIds t) p = 100" and "p \<in> set ps"
    using that unfolding parse_planMatches by force
  have k: "isPlanIdToken ''H5216-321''"
    by (simp add: isPlanIdToken_def planIdAt_def isDigit_def)
  have s: "planScore (toUpperCase t) (matchPlanIds t) p = 100"
    if t: "strIncludes t ''H5216-321''" and n: "p_name p = ''Advantage Gold H5216-321''"
  proof -
    have "strIncludes (p_name p) ''H5216-321''" by (simp add: n)
    with k t show ?thesis by (rule g)
  qed
  from g m s show ?thesis by blast
qed

theorem C7_plan_id_short_circuit_witness:
  "isPlanIdToken ''H5216-321''
   \<and> planScore (toUpperCase ''Your plan: H5216-321 (Acme Basic)'')
        (matchPlanIds ''Your plan: H5216-321 (Acme Basic)'') advantageGold = 100
   \<and> (''Advantage Gold H5216-321'', ''Acme'', 100)
        \<in> set (planMatches (parsePlanDocumentText noBenefits ''Your plan: H5216-321 (Acme Basic)''
                               [acme, zenith] [acmeBasic, advantageGold]))"
proof -
  have a: "isPlanIdToken ''H5216-321''" by code_simp
  have b: "strIncludes ''Your plan: H5216-321 (Acme Basic)'' ''H5216-321''" by code_simp
  have c: "strIncludes (p_name advantageGold) ''H5216-321''" by code_simp
  have d: "advantageGold \<in> set [acmeBasic, advantageGold]" by simp
  have e: "p_name advantageGold = ''Advantage Gold H5216-321''"
          "carrierNameOf [acme, zenith] (p_carrierId advantageGold) = ''Acme''"
    by (simp_all add: advantageGold_def catalogPlan_def carrierNameOf_def acme_def)
  from C7_plan_id_short_circuit
         [of "''H5216-321''" "''Your plan: H5216-321 (Acme Basic)''" advantageGold
             "[acmeBasic, advantageGold]" "[acme, zenith]" noBenefits]
       a b c d e
  show ?thesis by simp
qed

lemma planStep_foreign:
  assumes "p_carrierId q \<noteq> c_id c" and "bestScore < planScore u ids q"
  shows "planStep u ids cs (Some c) q (Some p0, bestScore, ms)
           = (Some p0, planScore u ids q,
              ms @ [(p_name q, carrierNameOf cs (p_carrierId q), planScore u ids q)])"
  using assms by (simp add: planStep_def Let_def)

lemma sample_plan_scores:
  "planScore (toUpperCase ''Acme Basic plan H1234-567'')
     (matchPlanIds ''Acme Basic plan H1234-567'') acmeBasic = 90
   \<and> planScore (toUpperCase ''Acme Basic plan H1234-567'')
       (matchPlanIds ''Acme Basic plan H1234-567'') zenithPlan = 100
   \<and> p_carrierId zenithPlan \<noteq> c_id acme"
  by code_simp

text \<open>
  Claim C10 (confidence from another plan's score). When a carrier is matched and a plan
  is already selected, a plan of another carrier that scores strictly higher leaves the
  selected plan in place and overwrites the best-plan score with its own. So there is an
  input on which the matcher returns a plan of the matched carrier while the confidence
  is the rounded mean of the carrier score and the strictly higher score of another
  carrier's plan, and differs from the rounded mean taken with the returned plan's own
  score. (In the text \<open>Acme Basic plan H1234-567\<close> the returned plan scores 90, the
  other carrier's plan 100, and the confidence is 100, not 95.)
\<close>

theorem C10_confidence_from_foreign_plan:
  "(p_carrierId q \<noteq> c_id c \<and> bestScore < planScore u ids q \<longrightarrow>
      planStep u ids cs (Some c) q (Some p0, bestScore, ms)
        = (Some p0, planScore u ids q,
           ms @ [(p_name q, carrierNameOf cs (p_carrierId q), planScore u ids q)]))
   \<and> (\<exists>t cs ps c p q.
        carrier (parsePlanDocumentText noBenefits t cs ps) = Some c
      \<and> plan (parsePlanDocumentText noBenefits t cs ps) = Some p
      \<and> p_carrierId p = c_id c
      \<and> q \<in> set ps \<and> p_carrierId q \<noteq> c_id c
      \<and> planScore (toUpperCase t) (matchPlanIds t) p < planScore (toUpperCase t) (matchPlanIds t) q
      \<and> fst (snd (planLoop (toUpperCase t) (matchPlanIds t) cs (Some c) ps))
          = planScore (toUpperCase t) (matchPlanIds t) q
      \<and> confidence (parsePlanDocumentText noBenefits t cs ps)
          = mathRound ((fst (snd (carrierLoop (toUpperCase t) cs))
                         + planScore (toUpperCase t) (matchPlanIds t) q) / 2)
      \<and> confidence (parsePlanDocumentText noBenefits t cs ps)
          \<noteq> mathRound ((fst (snd (carrierLoop (toUpperCase t) cs))
                         + planScore (toUpperCase t) (matchPlanIds t) p) / 2))"
proof (intro conjI impI)
  assume "p_carrierId q \<noteq> c_id c \<and> bestScore < planScore u ids q"
  then show "planStep u ids cs (Some c) q (Some p0, bestScore, ms)
        = (Some p0, planScore u ids q,
           ms @ [(p_name q, carrierNameOf cs (p_carrierId q), planScore u ids q)])"
    using planStep_foreign by blast
next
  show "\<exists>t cs ps c p q.
        carrier (parsePlanDocumentText noBenefits t cs ps) = Some c
      \<and> plan (parsePlanDocumentText noBenefits t cs ps) = Some p
      \<and> p_carrierId p = c_id c
      \<and> q \<in> set ps \<and> p_carrierId q \<noteq> c_id c
      \<and> planScore (toUpperCase t) (matchPlanIds t) p < planScore (toUpperCase t) (matchPlanIds t) q
      \<and> fst (snd (planLoop (toUpperCase t) (matchPlanIds t) cs (Some c) ps))
          = planScore (toUpperCase t) (matchPlanIds t) q
      \<and> confidence (parsePlanDocumentText noBenefits t cs ps)
          = mathRound ((fst (snd (carrierLoop (toUpperCase t) cs))
                         + planScore (toUpperCase t) (matchPlanIds t) q) / 2)
      \<and> confidence (parsePlanDocumentText noBenefits t cs ps)
          \<noteq> mathRound ((fst (snd (carrierLoop (toUpperCase t) cs))
                         + planScore (toUpperCase t) (matchPlanIds t) p) / 2)"
    apply (rule exI [of _ "''Acme Basic plan H1234-567''"])
    apply (rule exI [of _ "[acme, zenith]"])
    apply (rule exI [of _ "[acmeBasic, zenithPlan]"])
    apply (rule exI [of _ acme])
    apply (rule exI [of _ acmeBasic])
    apply (rule exI [of _ zenithPlan])
    apply code_simp
    done
qed

theorem C10_confidence_from_foreign_plan_witness:
  "planStep (toUpperCase ''Acme Basic plan H1234-567'') (matchPlanIds ''Acme Basic plan H1234-567'')
     [acme, zenith] (Some acme) zenithPlan (Some acmeBasic, 90, [(''Acme Basic'', ''Acme'', 90)])
   = (Some acmeBasic, 100, [(''Acme Basic'', ''Acme'', 90), (''Zenith H1234-567'', ''Zenith'', 100)])"
proof -
  have n: "p_name zenithPlan = ''Zenith H1234-567''"
          "carrierNameOf [acme, zenith] (p_carrierId zenithPlan) = ''Zenith''"
    by (simp_all add: zenithPlan_def catalogPlan_def carrierNameOf_def acme_def zenith_def)
  from C10_confidence_from_foreign_plan
         [of zenithPlan acme 90 "toUpperCase ''Acme Basic plan H1234-567''"
             "matchPlanIds ''Acme Basic plan H1234-567''" "[acme, zenith]" acmeBasic
             "[(''Acme Basic'', ''Acme'', 90)]"]
       sample_plan_scores n
  show ?thesis by simp
qed

section \<open>Batch upload: the acceptance test over a whole batch\<close>

















end
